theory Spec2Isabelle
  imports Complex_Main "HOL-Library.Multiset"
begin

section \<open>JavaScript numbers\<close>

text \<open>
  A JavaScript \<open>number\<close> is an IEEE-754 double. The model keeps the special values
  that the code tests for (\<open>NaN\<close>, the two infinities) and the overflow of a finite
  result to an infinity; a finite value is a real and finite arithmetic is exact.
  \<open>Math.PI\<close> is \<open>pi\<close> and the functions of \<open>Math\<close> are the real ones.
  Not modelled: rounding of finite results, underflow, and the sign of zero
  (\<open>-0\<close> is \<open>Num 0\<close>; both zeros are falsy and compare equal). Where the doubles
  round, the value of the model can differ from the value of the program.
\<close>

datatype jsnum = Num real | PosInf | NegInf | NaN

text \<open>
  A finite result whose magnitude reaches \<open>2^1024 - 2^970\<close> rounds to an infinity
  (round to nearest, ties to even); below it the largest double is the nearest one.
\<close>

definition overflow_threshold :: real where
  "overflow_threshold = 2 ^ 1024 - 2 ^ 970"

definition round_overflow :: "real \<Rightarrow> jsnum" where
  "round_overflow x =
     (if overflow_threshold \<le> x then PosInf
      else if x \<le> - overflow_threshold then NegInf
      else Num x)"

fun js_neg :: "jsnum \<Rightarrow> jsnum" where
  "js_neg (Num x) = Num (- x)"
| "js_neg PosInf = NegInf"
| "js_neg NegInf = PosInf"
| "js_neg NaN = NaN"

fun js_add :: "jsnum \<Rightarrow> jsnum \<Rightarrow> jsnum" where
  "js_add NaN _ = NaN"
| "js_add _ NaN = NaN"
| "js_add (Num x) (Num y) = round_overflow (x + y)"
| "js_add (Num x) PosInf = PosInf"
| "js_add (Num x) NegInf = NegInf"
| "js_add PosInf (Num y) = PosInf"
| "js_add PosInf PosInf = PosInf"
| "js_add PosInf NegInf = NaN"
| "js_add NegInf (Num y) = NegInf"
| "js_add NegInf PosInf = NaN"
| "js_add NegInf NegInf = NegInf"

definition js_sub :: "jsnum \<Rightarrow> jsnum \<Rightarrow> jsnum" where
  "js_sub a b = js_add a (js_neg b)"

text \<open>The sign a product or quotient with an infinite operand takes from a finite one.\<close>

definition signed_inf :: "bool \<Rightarrow> jsnum" where
  "signed_inf positive = (if positive then PosInf else NegInf)"

fun js_mul :: "jsnum \<Rightarrow> jsnum \<Rightarrow> jsnum" where
  "js_mul NaN _ = NaN"
| "js_mul _ NaN = NaN"
| "js_mul (Num x) (Num y) = round_overflow (x * y)"
| "js_mul (Num x) PosInf = (if x = 0 then NaN else signed_inf (0 < x))"
| "js_mul (Num x) NegInf = (if x = 0 then NaN else signed_inf (x < 0))"
| "js_mul PosInf (Num y) = (if y = 0 then NaN else signed_inf (0 < y))"
| "js_mul NegInf (Num y) = (if y = 0 then NaN else signed_inf (y < 0))"
| "js_mul PosInf PosInf = PosInf"
| "js_mul PosInf NegInf = NegInf"
| "js_mul NegInf PosInf = NegInf"
| "js_mul NegInf NegInf = PosInf"

text \<open>Division; a zero divisor is \<open>+0\<close>, the only zero of the model.\<close>

fun js_div :: "jsnum \<Rightarrow> jsnum \<Rightarrow> jsnum" where
  "js_div NaN _ = NaN"
| "js_div _ NaN = NaN"
| "js_div (Num x) (Num y) =
     (if y = 0 then (if x = 0 then NaN else signed_inf (0 < x))
      else round_overflow (x / y))"
| "js_div (Num x) PosInf = Num 0"
| "js_div (Num x) NegInf = Num 0"
| "js_div PosInf (Num y) = signed_inf (0 \<le> y)"
| "js_div NegInf (Num y) = signed_inf (y < 0)"
| "js_div PosInf PosInf = NaN"
| "js_div PosInf NegInf = NaN"
| "js_div NegInf PosInf = NaN"
| "js_div NegInf NegInf = NaN"

text \<open>\<open>Math.PI\<close>, \<open>Math.sin\<close>, \<open>Math.cos\<close>, \<open>Math.sqrt\<close>, \<open>Math.atan2\<close>.\<close>

definition Math_PI :: jsnum where
  "Math_PI = Num pi"

fun Math_sin :: "jsnum \<Rightarrow> jsnum" where
  "Math_sin (Num x) = Num (sin x)"
| "Math_sin PosInf = NaN"
| "Math_sin NegInf = NaN"
| "Math_sin NaN = NaN"

fun Math_cos :: "jsnum \<Rightarrow> jsnum" where
  "Math_cos (Num x) = Num (cos x)"
| "Math_cos PosInf = NaN"
| "Math_cos NegInf = NaN"
| "Math_cos NaN = NaN"

fun Math_sqrt :: "jsnum \<Rightarrow> jsnum" where
  "Math_sqrt (Num x) = (if x < 0 then NaN else Num (sqrt x))"
| "Math_sqrt PosInf = PosInf"
| "Math_sqrt NegInf = NaN"
| "Math_sqrt NaN = NaN"

text \<open>The angle of the point \<open>(x, y)\<close>, in \<open>(-pi, pi]\<close>.\<close>

definition atan2 :: "real \<Rightarrow> real \<Rightarrow> real" where
  "atan2 y x =
     (if 0 < x then arctan (y / x)
      else if x < 0 then (if 0 \<le> y then arctan (y / x) + pi else arctan (y / x) - pi)
      else if 0 < y then pi / 2
      else if y < 0 then - (pi / 2)
      else 0)"

fun Math_atan2 :: "jsnum \<Rightarrow> jsnum \<Rightarrow> jsnum" where
  "Math_atan2 NaN _ = NaN"
| "Math_atan2 _ NaN = NaN"
| "Math_atan2 (Num y) (Num x) = Num (atan2 y x)"
| "Math_atan2 (Num y) PosInf = Num 0"
| "Math_atan2 (Num y) NegInf = Num (if 0 \<le> y then pi else - pi)"
| "Math_atan2 PosInf (Num x) = Num (pi / 2)"
| "Math_atan2 NegInf (Num x) = Num (- (pi / 2))"
| "Math_atan2 PosInf PosInf = Num (pi / 4)"
| "Math_atan2 PosInf NegInf = Num (3 * pi / 4)"
| "Math_atan2 NegInf PosInf = Num (- (pi / 4))"
| "Math_atan2 NegInf NegInf = Num (- (3 * pi / 4))"

text \<open>\<open>isNaN\<close> on a number, truthiness of a number, and the test \<open>v < 0\<close>.\<close>

fun isNaN :: "jsnum \<Rightarrow> bool" where
  "isNaN NaN = True"
| "isNaN _ = False"

fun truthy :: "jsnum \<Rightarrow> bool" where
  "truthy (Num x) = (x \<noteq> 0)"
| "truthy NaN = False"
| "truthy _ = True"

fun is_negative :: "jsnum \<Rightarrow> bool" where
  "is_negative (Num x) = (x < 0)"
| "is_negative NegInf = True"
| "is_negative _ = False"


section \<open>The distance calculator\<close>

text \<open>
  \<^verbatim>\<open>calculateDistance\<close> of the page component: operand for operand as the source
  writes it (products associate to the left).
\<close>

definition calculateDistance :: "jsnum \<Rightarrow> jsnum \<Rightarrow> jsnum \<Rightarrow> jsnum \<Rightarrow> jsnum" where
  "calculateDistance lat1 lon1 lat2 lon2 =
     (let R = Num 6371;
          dLat = js_div (js_mul (js_sub lat2 lat1) Math_PI) (Num 180);
          dLon = js_div (js_mul (js_sub lon2 lon1) Math_PI) (Num 180);
          a = js_add
                (js_mul (Math_sin (js_div dLat (Num 2))) (Math_sin (js_div dLat (Num 2))))
                (js_mul
                  (js_mul
                    (js_mul (Math_cos (js_div (js_mul lat1 Math_PI) (Num 180)))
                            (Math_cos (js_div (js_mul lat2 Math_PI) (Num 180))))
                    (Math_sin (js_div dLon (Num 2))))
                  (Math_sin (js_div dLon (Num 2))));
          c = js_mul (Num 2) (Math_atan2 (Math_sqrt a) (Math_sqrt (js_sub (Num 1) a)))
      in js_mul R c)"

text \<open>
  The two halves of \<^verbatim>\<open>calculateDistance\<close> on their own: the term \<open>a\<close> (lines 34 to 39
  of the source) and the distance computed from it (lines 40 and 41).
\<close>

definition haversine_a :: "jsnum \<Rightarrow> jsnum \<Rightarrow> jsnum \<Rightarrow> jsnum \<Rightarrow> jsnum" where
  "haversine_a lat1 lon1 lat2 lon2 =
     (let dLat = js_div (js_mul (js_sub lat2 lat1) Math_PI) (Num 180);
          dLon = js_div (js_mul (js_sub lon2 lon1) Math_PI) (Num 180)
      in js_add
           (js_mul (Math_sin (js_div dLat (Num 2))) (Math_sin (js_div dLat (Num 2))))
           (js_mul
             (js_mul
               (js_mul (Math_cos (js_div (js_mul lat1 Math_PI) (Num 180)))
                       (Math_cos (js_div (js_mul lat2 Math_PI) (Num 180))))
               (Math_sin (js_div dLon (Num 2))))
             (Math_sin (js_div dLon (Num 2)))))"

definition distance_from_a :: "jsnum \<Rightarrow> jsnum" where
  "distance_from_a a =
     (let R = Num 6371;
          c = js_mul (Num 2) (Math_atan2 (Math_sqrt a) (Math_sqrt (js_sub (Num 1) a)))
      in js_mul R c)"

text \<open>
  The formula as the specification writes it, over the reals: degrees to radians, then
  \<open>a = sin\<^sup>2(\<Delta>lat/2) + cos(lat1) cos(lat2) sin\<^sup>2(\<Delta>lon/2)\<close>,
  \<open>c = 2 atan2(\<surd>a, \<surd>(1-a))\<close>, distance \<open>R c\<close> with \<open>R = 6371\<close>.
\<close>

definition deg2rad :: "real \<Rightarrow> real" where
  "deg2rad d = d * pi / 180"

definition haversine_spec :: "real \<Rightarrow> real \<Rightarrow> real \<Rightarrow> real \<Rightarrow> real" where
  "haversine_spec lat1 lon1 lat2 lon2 =
     (let R = 6371;
          \<Delta>lat = deg2rad lat2 - deg2rad lat1;
          \<Delta>lon = deg2rad lon2 - deg2rad lon1;
          a = (sin (\<Delta>lat / 2))\<^sup>2
                + cos (deg2rad lat1) * cos (deg2rad lat2) * (sin (\<Delta>lon / 2))\<^sup>2;
          c = 2 * atan2 (sqrt a) (sqrt (1 - a))
      in R * c)"

text \<open>A finite, non-negative number.\<close>

fun finite_nonneg :: "jsnum \<Rightarrow> bool" where
  "finite_nonneg (Num x) = (0 \<le> x)"
| "finite_nonneg _ = False"


section \<open>The location fetcher\<close>

text \<open>
  \<^verbatim>\<open>PlaceResult\<close>. \<open>geometry_location\<close> is \<open>geometry.location\<close> as \<open>(lat, lng)\<close>;
  it is \<open>None\<close> for an element of the parsed array on which reading
  \<open>location.geometry.location.lat\<close> throws (no \<open>geometry\<close>, or no \<open>location\<close> in it).
  \<open>rating\<close> and \<open>distance\<close> are the optional fields.
\<close>

record PlaceResult =
  geometry_location :: "(jsnum \<times> jsnum) option"
  name :: string
  vicinity :: string
  rating :: "jsnum option"
  distance :: "jsnum option"

text \<open>
  What \<open>await fetch(...)\<close> followed by \<open>await response.json()\<close> can give: the request
  rejects, the body is not JSON, or a JSON value arrives, which is an array of places
  or something without a \<open>map\<close> method (the proxy's error object, for one).
\<close>

datatype response_data = NotAnArray | Places "PlaceResult list"

datatype fetch_result = TransportError | ParseError | Json response_data

text \<open>
  The effects of one run of the function, in order. The request carries the two
  numbers; their formatting into the query string is not modelled.
\<close>

datatype effect =
    SetError string
  | SetLoading bool
  | FetchPlaces jsnum jsnum
  | SetLocations "PlaceResult list"

text \<open>The callback of \<open>data.map\<close>: the place with its distance from \<open>(lat, lng)\<close>.\<close>

definition with_distance :: "jsnum \<Rightarrow> jsnum \<Rightarrow> PlaceResult \<Rightarrow> PlaceResult option" where
  "with_distance lat lng location =
     (case geometry_location location of
        None \<Rightarrow> None
      | Some (plat, plng) \<Rightarrow>
          Some (location\<lparr>distance := Some (calculateDistance lat lng plat plng)\<rparr>))"

text \<open>\<open>Array.prototype.map\<close> with a callback that may throw: the first throw ends it.\<close>

fun map_throwing :: "('a \<Rightarrow> 'b option) \<Rightarrow> 'a list \<Rightarrow> 'b list option" where
  "map_throwing f [] = Some []"
| "map_throwing f (x # xs) =
     (case f x of
        None \<Rightarrow> None
      | Some y \<Rightarrow> (case map_throwing f xs of None \<Rightarrow> None | Some ys \<Rightarrow> Some (y # ys)))"

text \<open>\<open>d || Infinity\<close> for an optional number: \<open>undefined\<close>, \<open>0\<close> and \<open>NaN\<close> are falsy.\<close>

fun or_Infinity :: "jsnum option \<Rightarrow> jsnum" where
  "or_Infinity None = PosInf"
| "or_Infinity (Some d) = (if truthy d then d else PosInf)"

text \<open>The comparator given to \<open>sort\<close>, and the key it compares by.\<close>

definition compare_distance :: "PlaceResult \<Rightarrow> PlaceResult \<Rightarrow> jsnum" where
  "compare_distance a b = js_sub (or_Infinity (distance a)) (or_Infinity (distance b))"

definition sort_key :: "PlaceResult \<Rightarrow> jsnum" where
  "sort_key p = or_Infinity (distance p)"

text \<open>
  \<open>Array.prototype.sort\<close> with a comparator: the language fixes a stable sort in which
  \<open>x\<close> goes before \<open>y\<close> when the comparator is negative on \<open>(x, y)\<close> and a \<open>NaN\<close>
  result counts as \<open>0\<close>. Insertion from the left, each element behind those not
  greater, is such a sort.
\<close>

fun sort_insert :: "('a \<Rightarrow> 'a \<Rightarrow> jsnum) \<Rightarrow> 'a \<Rightarrow> 'a list \<Rightarrow> 'a list" where
  "sort_insert cmp x [] = [x]"
| "sort_insert cmp x (y # ys) =
     (if is_negative (cmp x y) then x # y # ys else y # sort_insert cmp x ys)"

definition array_sort :: "('a \<Rightarrow> 'a \<Rightarrow> jsnum) \<Rightarrow> 'a list \<Rightarrow> 'a list" where
  "array_sort cmp xs = foldl (\<lambda>acc x. sort_insert cmp x acc) [] xs"

text \<open>
  The function given to \<open>debounce\<close> in \<^verbatim>\<open>fetchLocations\<close>, as the list of its effects.
  \<open>proxy\<close> is the outcome of the request for the given coordinates. Everything from the
  request to \<open>setLocations\<close> is inside the \<open>try\<close>; \<open>setLoading(false)\<close> is the \<open>finally\<close>.
  The \<open>debounce\<close> wrapper itself is a library function and is not part of the model.
\<close>

definition fetchLocations :: "(jsnum \<Rightarrow> jsnum \<Rightarrow> fetch_result) \<Rightarrow> jsnum \<Rightarrow> jsnum \<Rightarrow> effect list" where
  "fetchLocations proxy lat lng =
     (if isNaN lat \<or> isNaN lng
      then [SetError ''Invalid coordinates received. Unable to fetch locations.'']
      else [SetLoading True, FetchPlaces lat lng] @
           (case proxy lat lng of
              TransportError \<Rightarrow> [SetError ''Failed to fetch locations.'']
            | ParseError \<Rightarrow> [SetError ''Failed to fetch locations.'']
            | Json NotAnArray \<Rightarrow> [SetError ''Failed to fetch locations.'']
            | Json (Places data) \<Rightarrow>
                (case map_throwing (with_distance lat lng) data of
                   None \<Rightarrow> [SetError ''Failed to fetch locations.'']
                 | Some locationsWithDistance \<Rightarrow>
                     [SetLocations (array_sort compare_distance locationsWithDistance)])) @
           [SetLoading False])"

text \<open>The component's state that the function writes, and the effects on it.\<close>

record page_state =
  locations :: "PlaceResult list"
  loading :: bool
  error :: string

fun apply_effect :: "effect \<Rightarrow> page_state \<Rightarrow> page_state" where
  "apply_effect (SetError msg) s = s\<lparr>error := msg\<rparr>"
| "apply_effect (SetLoading b) s = s\<lparr>loading := b\<rparr>"
| "apply_effect (FetchPlaces lat lng) s = s"
| "apply_effect (SetLocations ls) s = s\<lparr>locations := ls\<rparr>"

definition run_effects :: "effect list \<Rightarrow> page_state \<Rightarrow> page_state" where
  "run_effects es s = fold apply_effect es s"

text \<open>The requests among the effects, and the values given to \<open>setLoading\<close>.\<close>

fun requests :: "effect list \<Rightarrow> (jsnum \<times> jsnum) list" where
  "requests [] = []"
| "requests (FetchPlaces lat lng # es) = (lat, lng) # requests es"
| "requests (_ # es) = requests es"

fun loading_writes :: "effect list \<Rightarrow> bool list" where
  "loading_writes [] = []"
| "loading_writes (SetLoading b # es) = b # loading_writes es"
| "loading_writes (_ # es) = loading_writes es"

fun reported_errors :: "effect list \<Rightarrow> string list" where
  "reported_errors [] = []"
| "reported_errors (SetError msg # es) = msg # reported_errors es"
| "reported_errors (_ # es) = reported_errors es"

text \<open>
  The order the specification asks of a result set: non-decreasing in \<open>distance\<close>, a
  missing distance counting as \<open>+Infinity\<close>. \<open>js_le\<close> is \<open>\<le>\<close> on numbers.
\<close>

fun js_le :: "jsnum \<Rightarrow> jsnum \<Rightarrow> bool" where
  "js_le NaN _ = False"
| "js_le _ NaN = False"
| "js_le NegInf _ = True"
| "js_le _ PosInf = True"
| "js_le (Num x) (Num y) = (x \<le> y)"
| "js_le _ _ = False"

definition distance_or_last :: "PlaceResult \<Rightarrow> jsnum" where
  "distance_or_last p = (case distance p of None \<Rightarrow> PosInf | Some d \<Rightarrow> d)"

definition ascending_by_distance :: "PlaceResult list \<Rightarrow> bool" where
  "ascending_by_distance ps = sorted_wrt (\<lambda>p q. js_le (distance_or_last p) (distance_or_last q)) ps"


section \<open>The location proxy\<close>

text \<open>JSON values, for the bodies the handler sends and the data it relays.\<close>

datatype json =
    JNull
  | JBool bool
  | JNumber jsnum
  | JString string
  | JArray "json list"
  | JObject "(string \<times> json) list"

record http_response =
  status :: nat
  body :: json

text \<open>The \<open>params\<close> of the request to the places service, with its address.\<close>

record upstream_request =
  url :: string
  params_location :: string
  params_radius :: nat
  params_type :: string
  params_key :: "string option"

text \<open>\<open>axios.get\<close>: it throws, or resolves with \<open>response.data\<close>.\<close>

datatype upstream_result = Throws | Resolves json

text \<open>\<open>!v\<close> and \<open>`${v}`\<close> for the result of \<open>searchParams.get\<close>, a string or \<open>null\<close>.\<close>

fun falsy :: "string option \<Rightarrow> bool" where
  "falsy None = True"
| "falsy (Some s) = (s = [])"

fun template :: "string option \<Rightarrow> string" where
  "template None = ''null''"
| "template (Some s) = s"

text \<open>
  \<open>response.data.results\<close> handed to \<open>NextResponse.json\<close>: reading a property of
  \<open>null\<close> throws, and a value without the property gives \<open>undefined\<close>, which has no
  JSON text, so that \<open>Response.json\<close> throws. \<open>None\<close> stands for both.
\<close>

fun results_of :: "json \<Rightarrow> json option" where
  "results_of (JObject members) = map_of members ''results''"
| "results_of _ = None"

definition missing_coordinates :: http_response where
  "missing_coordinates = \<lparr>status = 400, body = JObject [(''error'', JString ''Missing coordinates'')]\<rparr>"

definition failed_to_fetch :: http_response where
  "failed_to_fetch = \<lparr>status = 500, body = JObject [(''error'', JString ''Failed to fetch locations'')]\<rparr>"

text \<open>
  The request object of \<open>axios.get\<close>, from the two values read from the query and the
  environment variable \<open>NEXT_PUBLIC_GOOGLE_MAPS_KEY\<close>.
\<close>

definition nearbysearch_request :: "string option \<Rightarrow> string option \<Rightarrow> string option \<Rightarrow> upstream_request" where
  "nearbysearch_request NEXT_PUBLIC_GOOGLE_MAPS_KEY lat lng =
     \<lparr>url = ''https://maps.googleapis.com/maps/api/place/nearbysearch/json'',
      params_location = template lat @ '','' @ template lng,
      params_radius = 5000,
      params_type = ''school|university|college|government_office '',
      params_key = NEXT_PUBLIC_GOOGLE_MAPS_KEY\<rparr>"

text \<open>
  \<^verbatim>\<open>GET\<close> of \<open>route.ts\<close>: the response, and the requests made to the places service.
  \<open>axios_get\<close> is the places service, \<open>searchParams\<close> the query of the request URL
  (the first value of a name is the one \<open>get\<close> returns).
\<close>

definition GET ::
  "string option \<Rightarrow> (upstream_request \<Rightarrow> upstream_result) \<Rightarrow> (string \<times> string) list
     \<Rightarrow> http_response \<times> upstream_request list" where
  "GET NEXT_PUBLIC_GOOGLE_MAPS_KEY axios_get searchParams =
     (let lat = map_of searchParams ''lat'';
          lng = map_of searchParams ''lng''
      in if falsy lat \<or> falsy lng then (missing_coordinates, [])
         else
           let request = nearbysearch_request NEXT_PUBLIC_GOOGLE_MAPS_KEY lat lng
           in (case axios_get request of
                 Throws \<Rightarrow> (failed_to_fetch, [request])
               | Resolves data \<Rightarrow>
                   (case results_of data of
                      None \<Rightarrow> (failed_to_fetch, [request])
                    | Some results \<Rightarrow> (\<lparr>status = 200, body = results\<rparr>, [request]))))"

text \<open>A category list as a pipe-delimited filter.\<close>

fun pipe_delimited :: "string list \<Rightarrow> string" where
  "pipe_delimited [] = []"
| "pipe_delimited [c] = c"
| "pipe_delimited (c # cs) = c @ ''|'' @ pipe_delimited cs"


section \<open>Example inputs\<close>

text \<open>A caller in Mumbai, a place at the caller's own coordinates and one to the north.\<close>

definition user_lat :: real where "user_lat = 19.076"

definition user_lng :: real where "user_lng = 72.8777"

definition north_lat :: real where "north_lat = 19.086"

definition place_here :: PlaceResult where
  "place_here = \<lparr>geometry_location = Some (Num user_lat, Num user_lng), name = ''School A'',
                  vicinity = ''Mumbai'', rating = None, distance = None\<rparr>"

definition place_north :: PlaceResult where
  "place_north = \<lparr>geometry_location = Some (Num north_lat, Num user_lng), name = ''College B'',
                   vicinity = ''Mumbai'', rating = None, distance = None\<rparr>"

definition two_places_proxy :: "jsnum \<Rightarrow> jsnum \<Rightarrow> fetch_result" where
  "two_places_proxy lat lng = Json (Places [place_here, place_north])"

definition failing_proxy :: "jsnum \<Rightarrow> jsnum \<Rightarrow> fetch_result" where
  "failing_proxy lat lng = TransportError"

definition unparsable_proxy :: "jsnum \<Rightarrow> jsnum \<Rightarrow> fetch_result" where
  "unparsable_proxy lat lng = ParseError"

definition idle_page :: page_state where
  "idle_page = \<lparr>locations = [place_here], loading = False, error = []\<rparr>"

text \<open>A places service that is down, and one that answers with two results.\<close>

definition throwing_service :: "upstream_request \<Rightarrow> upstream_result" where
  "throwing_service request = Throws"

definition answering_service :: "upstream_request \<Rightarrow> upstream_result" where
  "answering_service request =
     Resolves (JObject [(''results'', JArray [JString ''first'', JString ''second'']),
                        (''status'', JString ''OK'')])"


section \<open>Arithmetic of the number model\<close>

lemma overflow_threshold_gt: "2 ^ 1023 < overflow_threshold"
proof -
  have "(2::real) ^ 970 < 2 ^ 1023" by (rule power_strict_increasing) simp_all
  moreover have "(2::real) ^ 1024 = 2 ^ 1023 + 2 ^ 1023" by simp
  ultimately show ?thesis unfolding overflow_threshold_def by linarith
qed

lemma overflow_threshold_pos: "0 < overflow_threshold"
proof -
  have "(0::real) < 2 ^ 1023" by simp
  with overflow_threshold_gt show ?thesis by linarith
qed

lemma round_overflow_Num: "\<bar>x\<bar> \<le> 2 ^ 1023 \<Longrightarrow> round_overflow x = Num x"
  using overflow_threshold_gt by (auto simp: round_overflow_def)








lemma js_mul_neg_neg: "js_mul (js_neg a) (js_neg a) = js_mul a a"
  by (cases a) simp_all




subsection \<open>The haversine term and finite evaluation\<close>

lemma haversine_a_bounds:
  fixes x y l :: real
  defines "a \<equiv> (sin ((y - x) / 2))\<^sup>2 + cos x * cos y * (sin (l / 2))\<^sup>2"
  shows "0 \<le> a" and "a \<le> 1"
proof -
  define s where "s = (sin (l / 2))\<^sup>2"
  define q where "q = (sin ((y - x) / 2))\<^sup>2"
  define cd where "cd = cos (y - x)"
  define cs where "cs = cos (y + x)"
  have s0: "0 \<le> s" and s1: "s \<le> 1"
    by (simp_all add: s_def abs_square_le_1)
  have e: "2 * ((y - x) / 2) = y - x" by simp
  have "cd = 1 - 2 * q"
    using cos_double_sin [of "(y - x) / 2"] unfolding e cd_def q_def .
  then have h1: "q = (1 - cd) / 2" by simp
  have h2: "cos x * cos y = (cd + cs) / 2"
    by (simp add: cd_def cs_def cos_add cos_diff)
  have "a = q + (cos x * cos y) * s"
    by (simp add: a_def q_def s_def)
  then have a_eq: "a = 1 / 2 - ((1 - s) * cd) / 2 + (s * cs) / 2"
    unfolding h1 h2 by (simp add: field_simps)
  define u where "u = (1 - s) * cd"
  define v where "v = s * cs"
  have c1: "\<bar>cd\<bar> \<le> 1" "\<bar>cs\<bar> \<le> 1"
    by (simp_all add: cd_def cs_def)
  have "\<bar>(1 - s) * cd\<bar> \<le> (1 - s) * 1"
    unfolding abs_mult using s1 c1 by (intro mult_mono) simp_all
  then have u: "\<bar>u\<bar> \<le> 1 - s" by (simp add: u_def)
  have "\<bar>s * cs\<bar> \<le> s * 1"
    unfolding abs_mult using s0 c1 by (intro mult_mono) simp_all
  then have v: "\<bar>v\<bar> \<le> s" by (simp add: v_def)
  have a_uv: "a = 1 / 2 - u / 2 + v / 2"
    using a_eq by (simp only: u_def v_def)
  show "0 \<le> a" using a_uv u v by linarith
  show "a \<le> 1" using a_uv u v by linarith
qed

lemma atan2_nonneg: "0 \<le> y \<Longrightarrow> 0 \<le> x \<Longrightarrow> 0 \<le> atan2 y x"
  by (auto simp: atan2_def arctan_le_zero_iff zero_le_arctan_iff)

lemma atan2_le_pi_half: "0 \<le> y \<Longrightarrow> 0 \<le> x \<Longrightarrow> atan2 y x \<le> pi / 2"
  using arctan_ubound [of "y / x"] by (auto simp: atan2_def)

lemma small_le_big: "\<bar>x\<bar> \<le> 2 ^ 16 \<Longrightarrow> \<bar>x::real\<bar> \<le> 2 ^ 1023"
proof -
  have "(2::real) ^ 16 \<le> 2 ^ 1023" by (rule power_increasing) simp_all
  then show "\<bar>x\<bar> \<le> 2 ^ 16 \<Longrightarrow> \<bar>x\<bar> \<le> 2 ^ 1023" by linarith
qed

lemma js_sub_Num:
  assumes "\<bar>x\<bar> \<le> 2 ^ 1020" "\<bar>y\<bar> \<le> 2 ^ 1020"
  shows "js_sub (Num y) (Num x) = Num (y - x)" and "\<bar>y - x\<bar> \<le> 2 ^ 1021"
proof -
  show b: "\<bar>y - x\<bar> \<le> 2 ^ 1021" using assms by simp
  have "(2::real) ^ 1021 \<le> 2 ^ 1023" by (rule power_increasing) simp_all
  with b have "\<bar>y + - x\<bar> \<le> 2 ^ 1023" by simp
  then show "js_sub (Num y) (Num x) = Num (y - x)"
    by (simp add: js_sub_def round_overflow_Num)
qed

lemma to_radians_Num:
  assumes "\<bar>d\<bar> \<le> 2 ^ 1021"
  shows "js_div (js_mul (Num d) Math_PI) (Num 180) = Num (d * pi / 180)"
    and "\<bar>d * pi / 180\<bar> \<le> 2 ^ 1023"
proof -
  have "\<bar>d * pi\<bar> \<le> 2 ^ 1021 * 4"
    unfolding abs_mult using assms pi_less_4 pi_gt_zero by (intro mult_mono) simp_all
  then have m: "\<bar>d * pi\<bar> \<le> 2 ^ 1023" by simp
  have "\<bar>d * pi / 180\<bar> \<le> \<bar>d * pi\<bar>" by (simp add: abs_mult)
  with m show q: "\<bar>d * pi / 180\<bar> \<le> 2 ^ 1023" by linarith
  show "js_div (js_mul (Num d) Math_PI) (Num 180) = Num (d * pi / 180)"
    using m q by (simp add: Math_PI_def round_overflow_Num)
qed

lemma half_Num:
  assumes "\<bar>r\<bar> \<le> 2 ^ 1023"
  shows "js_div (Num r) (Num 2) = Num (r / 2)"
proof -
  have "\<bar>r / 2\<bar> \<le> 2 ^ 1023" using assms by simp
  then show ?thesis by (simp add: round_overflow_Num)
qed

lemma js_mul_unit:
  assumes "\<bar>x\<bar> \<le> 1" "\<bar>y\<bar> \<le> 1"
  shows "js_mul (Num x) (Num y) = Num (x * y)" and "\<bar>x * y\<bar> \<le> 1"
proof -
  show b: "\<bar>x * y\<bar> \<le> 1"
    unfolding abs_mult using assms by (simp add: mult_le_one)
  have "\<bar>x * y\<bar> \<le> 2 ^ 16" using b by simp
  then show "js_mul (Num x) (Num y) = Num (x * y)"
    by (simp add: round_overflow_Num small_le_big)
qed

lemma js_arith_small:
  assumes "\<bar>x\<bar> \<le> 2 ^ 7" "\<bar>y\<bar> \<le> 2 ^ 7"
  shows "js_add (Num x) (Num y) = Num (x + y)"
    and "js_sub (Num x) (Num y) = Num (x - y)"
proof -
  have "\<bar>x + y\<bar> \<le> 2 ^ 16" "\<bar>x + - y\<bar> \<le> 2 ^ 16" using assms by simp_all
  then show "js_add (Num x) (Num y) = Num (x + y)" "js_sub (Num x) (Num y) = Num (x - y)"
    by (simp_all add: js_sub_def round_overflow_Num small_le_big)
qed

lemma scale_c_Num:
  assumes "0 \<le> t" "t \<le> pi / 2"
  shows "js_mul (Num 6371) (js_mul (Num 2) (Num t)) = Num (6371 * (2 * t))"
proof -
  have t: "\<bar>t\<bar> \<le> 2" using assms pi_less_4 by simp
  then have "\<bar>2 * t\<bar> \<le> 2 ^ 16" "\<bar>6371 * (2 * t)\<bar> \<le> 2 ^ 16" by simp_all
  then show ?thesis by (simp add: round_overflow_Num small_le_big)
qed

lemma calculateDistance_Num:
  assumes "\<bar>lat1\<bar> \<le> 2 ^ 1020" "\<bar>lon1\<bar> \<le> 2 ^ 1020"
      and "\<bar>lat2\<bar> \<le> 2 ^ 1020" "\<bar>lon2\<bar> \<le> 2 ^ 1020"
  shows "calculateDistance (Num lat1) (Num lon1) (Num lat2) (Num lon2)
           = Num (haversine_spec lat1 lon1 lat2 lon2)"
proof -
  define dLat where "dLat = (lat2 - lat1) * pi / 180"
  define dLon where "dLon = (lon2 - lon1) * pi / 180"
  define r1 where "r1 = lat1 * pi / 180"
  define r2 where "r2 = lat2 * pi / 180"
  define a where "a = sin (dLat / 2) * sin (dLat / 2) + cos r1 * cos r2 * sin (dLon / 2) * sin (dLon / 2)"
  have "(2::real) ^ 1020 \<le> 2 ^ 1021" by (rule power_increasing) simp_all
  then have up: "\<And>x::real. \<bar>x\<bar> \<le> 2 ^ 1020 \<Longrightarrow> \<bar>x\<bar> \<le> 2 ^ 1021"
    by linarith
  have dLat: "js_div (js_mul (js_sub (Num lat2) (Num lat1)) Math_PI) (Num 180) = Num dLat"
    and dLat_b: "\<bar>dLat\<bar> \<le> 2 ^ 1023"
    using js_sub_Num [OF assms(1) assms(3)] to_radians_Num [of "lat2 - lat1"]
    by (simp_all add: dLat_def)
  have dLon: "js_div (js_mul (js_sub (Num lon2) (Num lon1)) Math_PI) (Num 180) = Num dLon"
    and dLon_b: "\<bar>dLon\<bar> \<le> 2 ^ 1023"
    using js_sub_Num [OF assms(2) assms(4)] to_radians_Num [of "lon2 - lon1"]
    by (simp_all add: dLon_def)
  have r1: "js_div (js_mul (Num lat1) Math_PI) (Num 180) = Num r1"
    using to_radians_Num(1) [OF up [OF assms(1)]] by (simp add: r1_def)
  have r2: "js_div (js_mul (Num lat2) Math_PI) (Num 180) = Num r2"
    using to_radians_Num(1) [OF up [OF assms(3)]] by (simp add: r2_def)
  have t1: "js_mul (Num (sin (dLat / 2))) (Num (sin (dLat / 2))) = Num (sin (dLat / 2) * sin (dLat / 2))"
    and t1_b: "\<bar>sin (dLat / 2) * sin (dLat / 2)\<bar> \<le> 1"
    by (rule js_mul_unit; simp)+
  have cc: "js_mul (Num (cos r1)) (Num (cos r2)) = Num (cos r1 * cos r2)"
    and cc_b: "\<bar>cos r1 * cos r2\<bar> \<le> 1"
    by (rule js_mul_unit; simp)+
  have ccs: "js_mul (Num (cos r1 * cos r2)) (Num (sin (dLon / 2))) = Num (cos r1 * cos r2 * sin (dLon / 2))"
    and ccs_b: "\<bar>cos r1 * cos r2 * sin (dLon / 2)\<bar> \<le> 1"
    by (rule js_mul_unit [OF cc_b]; simp)+
  have t2: "js_mul (Num (cos r1 * cos r2 * sin (dLon / 2))) (Num (sin (dLon / 2)))
              = Num (cos r1 * cos r2 * sin (dLon / 2) * sin (dLon / 2))"
    and t2_b: "\<bar>cos r1 * cos r2 * sin (dLon / 2) * sin (dLon / 2)\<bar> \<le> 1"
    by (rule js_mul_unit [OF ccs_b]; simp)+
  have sum: "js_add (Num (sin (dLat / 2) * sin (dLat / 2)))
                    (Num (cos r1 * cos r2 * sin (dLon / 2) * sin (dLon / 2))) = Num a"
    unfolding a_def using t1_b t2_b by (intro js_arith_small(1)) simp_all
  have a_form: "a = (sin ((r2 - r1) / 2))\<^sup>2 + cos r1 * cos r2 * (sin (dLon / 2))\<^sup>2"
    by (simp add: a_def dLat_def r1_def r2_def power2_eq_square algebra_simps diff_divide_distrib)
  have a0: "0 \<le> a" and a1: "a \<le> 1"
    unfolding a_form by (rule haversine_a_bounds)+
  have one_minus: "js_sub (Num 1) (Num a) = Num (1 - a)"
    using a0 a1 by (intro js_arith_small(2)) simp_all
  have c0: "0 \<le> atan2 (sqrt a) (sqrt (1 - a))"
    using a0 a1 by (intro atan2_nonneg) simp_all
  have c1: "atan2 (sqrt a) (sqrt (1 - a)) \<le> pi / 2"
    using a0 a1 by (intro atan2_le_pi_half) simp_all
  have sq1: "Math_sqrt (Num a) = Num (sqrt a)" using a0 by simp
  have sq2: "Math_sqrt (Num (1 - a)) = Num (sqrt (1 - a))" using a1 by simp
  have code: "calculateDistance (Num lat1) (Num lon1) (Num lat2) (Num lon2)
                = Num (6371 * (2 * atan2 (sqrt a) (sqrt (1 - a))))"
    by (simp only: calculateDistance_def Let_def dLat dLon r1 r2
          half_Num [OF dLat_b] half_Num [OF dLon_b] Math_sin.simps Math_cos.simps
          t1 cc ccs t2 sum one_minus sq1 sq2 Math_atan2.simps scale_c_Num [OF c0 c1])
  have spec: "haversine_spec lat1 lon1 lat2 lon2 = 6371 * (2 * atan2 (sqrt a) (sqrt (1 - a)))"
    unfolding haversine_spec_def Let_def deg2rad_def a_form
    by (simp add: r1_def r2_def dLon_def algebra_simps diff_divide_distrib)
  show ?thesis using code spec by simp
qed

lemma atan2_pos: "0 < y \<Longrightarrow> 0 \<le> x \<Longrightarrow> 0 < atan2 y x"
  by (auto simp: atan2_def zero_less_arctan_iff)

lemma haversine_spec_same_point: "haversine_spec lat lon lat lon = 0"
  by (simp add: haversine_spec_def Let_def atan2_def)

lemma haversine_spec_same_lon_pos:
  assumes "lat1 < lat2" "lat2 - lat1 < 360"
  shows "0 < haversine_spec lat1 lon lat2 lon"
proof -
  define t where "t = (deg2rad lat2 - deg2rad lat1) / 2"
  have t_eq: "t = (lat2 - lat1) * (pi / 360)" by (simp add: t_def deg2rad_def field_simps)
  have t0: "0 < t" unfolding t_eq using assms by simp
  have "(lat2 - lat1) * (pi / 360) < 360 * (pi / 360)"
    using assms by (intro mult_strict_right_mono) simp_all
  then have t1: "t < pi" unfolding t_eq by simp
  have s: "0 < sin t" using t0 t1 by (rule sin_gt_zero)
  have a_eq: "(sin t)\<^sup>2 = (sin ((deg2rad lat2 - deg2rad lat1) / 2))\<^sup>2
     + cos (deg2rad lat1) * cos (deg2rad lat2) * (sin ((deg2rad lon - deg2rad lon) / 2))\<^sup>2"
    by (simp add: t_def)
  have "0 \<le> 1 - (sin t)\<^sup>2" by (simp add: abs_square_le_1)
  then have "0 < atan2 (sqrt ((sin t)\<^sup>2)) (sqrt (1 - (sin t)\<^sup>2))"
    using s by (intro atan2_pos) simp_all
  then show ?thesis
    by (simp add: haversine_spec_def Let_def t_def)
qed

lemma coord_small: "\<bar>x\<bar> \<le> 180 \<Longrightarrow> \<bar>x::real\<bar> \<le> 2 ^ 1020"
proof -
  have "(2::real) ^ 8 \<le> 2 ^ 1020" by (rule power_increasing) simp_all
  then show "\<bar>x\<bar> \<le> 180 \<Longrightarrow> \<bar>x\<bar> \<le> 2 ^ 1020" by simp
qed

lemma calculateDistance_coord:
  "\<bar>lat1\<bar> \<le> 180 \<Longrightarrow> \<bar>lon1\<bar> \<le> 180 \<Longrightarrow> \<bar>lat2\<bar> \<le> 180 \<Longrightarrow> \<bar>lon2\<bar> \<le> 180 \<Longrightarrow>
   calculateDistance (Num lat1) (Num lon1) (Num lat2) (Num lon2) = Num (haversine_spec lat1 lon1 lat2 lon2)"
  by (intro calculateDistance_Num coord_small)

lemma calculateDistance_split:
  "calculateDistance lat1 lon1 lat2 lon2 = distance_from_a (haversine_a lat1 lon1 lat2 lon2)"
  by (simp add: calculateDistance_def haversine_a_def distance_from_a_def Let_def)

lemma distance_from_a_above_1: "1 < a \<Longrightarrow> distance_from_a (Num a) = NaN"
proof -
  assume a: "1 < a"
  have "Math_sqrt (js_sub (Num 1) (Num a)) = NaN"
    using a overflow_threshold_pos by (simp add: js_sub_def round_overflow_def)
  then show ?thesis by (simp add: distance_from_a_def)
qed


section \<open>The distance calculator: claims\<close>


text \<open>
  C5. The claim: for all finite arguments the result is a finite non-negative number.
  \<^verbatim>\<open>calculateDistance\<close> is \<open>distance_from_a\<close> of its term \<open>a\<close>, and the code takes \<open>Math.sqrt(1 - a)\<close> without keeping \<open>a\<close> within \<open>[0, 1]\<close>. In doubles
  the sum in \<open>a\<close> can round above \<open>1\<close>: for the valid coordinates
  \<open>(-12, -180)\<close> and \<open>(12, 0)\<close> the doubles give \<open>a = 1 + 2^-52\<close> (a rounding, which
  the number model does not have: there \<open>a\<close> is exactly \<open>1\<close>). From that \<open>a\<close>, lines 40
  and 41 give \<open>NaN\<close>: \<open>1 - a\<close> is negative and its square root is \<open>NaN\<close>. The same
  happens through an overflow: with \<open>lat1 = 2^1023\<close> and \<open>lat2 = -2^1023\<close>, both finite
  doubles, \<open>lat2 - lat1\<close> is \<open>-Infinity\<close>, its sine is \<open>NaN\<close>, and so is the result.
\<close>

theorem calculateDistance_not_finite:
  "calculateDistance lat1 lon1 lat2 lon2 = distance_from_a (haversine_a lat1 lon1 lat2 lon2)
   \<and> distance_from_a (Num (1 + 1 / 2 ^ 52)) = NaN
   \<and> \<not> finite_nonneg (distance_from_a (Num (1 + 1 / 2 ^ 52)))
   \<and> calculateDistance (Num (2 ^ 1023)) (Num 0) (Num (- (2 ^ 1023))) (Num 0) = NaN
   \<and> \<not> finite_nonneg (calculateDistance (Num (2 ^ 1023)) (Num 0) (Num (- (2 ^ 1023))) (Num 0))"
proof -
  have a: "distance_from_a (Num (1 + 1 / 2 ^ 52)) = NaN"
    by (rule distance_from_a_above_1) simp
  have "- ((2::real) ^ 1023) + - (2 ^ 1023) = - (2 ^ 1024)" by simp
  moreover have "round_overflow (- (2 ^ 1024)) = NegInf"
    using overflow_threshold_pos by (simp add: round_overflow_def overflow_threshold_def)
  ultimately have "js_sub (Num (- (2 ^ 1023))) (Num (2 ^ 1023)) = NegInf"
    by (simp add: js_sub_def)
  then have b: "calculateDistance (Num (2 ^ 1023)) (Num 0) (Num (- (2 ^ 1023))) (Num 0) = NaN"
    by (simp add: calculateDistance_def Let_def Math_PI_def signed_inf_def)
  show ?thesis
    by (simp only: a b finite_nonneg.simps calculateDistance_split [of lat1 lon1 lat2 lon2]) simp
qed


section \<open>The sort of the result list\<close>

lemma or_Infinity_not_NaN: "or_Infinity d \<noteq> NaN"
proof (cases d)
  case None
  then show ?thesis by simp
next
  case (Some v)
  then show ?thesis by (cases v) simp_all
qed

lemma or_Infinity_not_NaN': "\<not> isNaN (or_Infinity d)"
  using or_Infinity_not_NaN [of d] by (cases "or_Infinity d") simp_all

lemma is_negative_sub:
  "\<not> isNaN a \<Longrightarrow> \<not> isNaN b \<Longrightarrow> is_negative (js_sub a b) \<longleftrightarrow> \<not> js_le b a"
  using overflow_threshold_pos
  by (cases a; cases b) (auto simp: js_sub_def round_overflow_def)

lemma js_le_total: "\<not> isNaN a \<Longrightarrow> \<not> isNaN b \<Longrightarrow> js_le a b \<or> js_le b a"
  by (cases a; cases b) auto

lemma js_le_trans: "js_le a b \<Longrightarrow> js_le b c \<Longrightarrow> js_le a c"
  by (cases a; cases b; cases c) auto

lemma compare_distance_negative:
  "is_negative (compare_distance x y) \<longleftrightarrow> \<not> js_le (sort_key y) (sort_key x)"
  by (simp add: compare_distance_def sort_key_def is_negative_sub or_Infinity_not_NaN')

lemma set_sort_insert: "set (sort_insert cmp x ys) = insert x (set ys)"
  by (induction ys) auto

lemma mset_sort_insert: "mset (sort_insert cmp x ys) = add_mset x (mset ys)"
  by (induction ys) auto

lemma sorted_sort_insert:
  "sorted_wrt (\<lambda>p q. js_le (sort_key p) (sort_key q)) ys \<Longrightarrow>
   sorted_wrt (\<lambda>p q. js_le (sort_key p) (sort_key q)) (sort_insert compare_distance x ys)"
proof (induction ys)
  case Nil
  then show ?case by simp
next
  case (Cons y ys)
  show ?case
  proof (cases "is_negative (compare_distance x y)")
    case True
    then have xy: "js_le (sort_key x) (sort_key y)"
      using js_le_total [of "sort_key x" "sort_key y"]
      by (auto simp: compare_distance_negative sort_key_def or_Infinity_not_NaN')
    have "\<forall>z \<in> set ys. js_le (sort_key x) (sort_key z)"
      using Cons.prems xy by (auto intro: js_le_trans)
    with True xy Cons.prems show ?thesis by simp
  next
    case False
    then have "js_le (sort_key y) (sort_key x)"
      by (simp add: compare_distance_negative)
    with False Cons show ?thesis by (auto simp: set_sort_insert)
  qed
qed

lemma array_sort_foldl:
  "sorted_wrt (\<lambda>p q. js_le (sort_key p) (sort_key q)) acc \<Longrightarrow>
   sorted_wrt (\<lambda>p q. js_le (sort_key p) (sort_key q))
     (foldl (\<lambda>acc x. sort_insert compare_distance x acc) acc xs)
   \<and> mset (foldl (\<lambda>acc x. sort_insert compare_distance x acc) acc xs) = mset acc + mset xs"
  by (induction xs arbitrary: acc) (simp_all add: sorted_sort_insert mset_sort_insert)

lemma array_sort_sorted:
  "sorted_wrt (\<lambda>p q. js_le (sort_key p) (sort_key q)) (array_sort compare_distance xs)"
  using array_sort_foldl [of "[]" xs] by (simp add: array_sort_def)

lemma array_sort_mset: "mset (array_sort compare_distance xs) = mset xs"
  using array_sort_foldl [of "[]" xs] by (simp add: array_sort_def)

lemma map_throwing_Some:
  "map_throwing f xs = Some ys \<Longrightarrow> list_all2 (\<lambda>x y. f x = Some y) xs ys"
  by (induction xs arbitrary: ys) (auto split: option.splits)

lemma sort_key_truthy: "distance p = Some d \<Longrightarrow> truthy d \<Longrightarrow> sort_key p = distance_or_last p"
  by (simp add: sort_key_def distance_or_last_def)

text \<open>
  What a successful run publishes: the places of the response, each with its distance
  from the caller, in an order that is ascending in \<open>distance || Infinity\<close>; this is
  ascending in \<open>distance\<close> when no distance is \<open>0\<close> or \<open>NaN\<close>.
\<close>

lemma fetchLocations_success:
  assumes "\<not> isNaN lat" "\<not> isNaN lng"
      and "proxy lat lng = Json (Places data)"
      and "map_throwing (with_distance lat lng) data = Some annotated"
  shows "fetchLocations proxy lat lng
           = [SetLoading True, FetchPlaces lat lng,
              SetLocations (array_sort compare_distance annotated), SetLoading False]"
    and "mset (array_sort compare_distance annotated) = mset annotated"
    and "list_all2 (\<lambda>p q. \<exists>plat plng. geometry_location p = Some (plat, plng)
            \<and> q = p\<lparr>distance := Some (calculateDistance lat lng plat plng)\<rparr>) data annotated"
    and "sorted_wrt (\<lambda>p q. js_le (sort_key p) (sort_key q)) (array_sort compare_distance annotated)"
    and "(\<forall>p \<in> set annotated. \<exists>d. distance p = Some d \<and> truthy d)
           \<Longrightarrow> ascending_by_distance (array_sort compare_distance annotated)"
proof -
  show "fetchLocations proxy lat lng
           = [SetLoading True, FetchPlaces lat lng,
              SetLocations (array_sort compare_distance annotated), SetLoading False]"
    using assms by (simp add: fetchLocations_def)
  show m: "mset (array_sort compare_distance annotated) = mset annotated"
    by (rule array_sort_mset)
  have "list_all2 (\<lambda>x y. with_distance lat lng x = Some y) data annotated"
    using assms(4) by (rule map_throwing_Some)
  then show "list_all2 (\<lambda>p q. \<exists>plat plng. geometry_location p = Some (plat, plng)
            \<and> q = p\<lparr>distance := Some (calculateDistance lat lng plat plng)\<rparr>) data annotated"
    by (rule list_all2_mono) (auto simp: with_distance_def split: option.splits)
  show s: "sorted_wrt (\<lambda>p q. js_le (sort_key p) (sort_key q)) (array_sort compare_distance annotated)"
    by (rule array_sort_sorted)
  assume t: "\<forall>p \<in> set annotated. \<exists>d. distance p = Some d \<and> truthy d"
  have "set (array_sort compare_distance annotated) = set annotated"
    using m by (metis set_mset_mset)
  with t have "\<forall>p \<in> set (array_sort compare_distance annotated). sort_key p = distance_or_last p"
    by (auto simp: sort_key_truthy)
  with s show "ascending_by_distance (array_sort compare_distance annotated)"
    unfolding ascending_by_distance_def
    by (auto intro: sorted_wrt_mono_rel [rotated])
qed


section \<open>The location fetcher: claims\<close>

text \<open>
  C1. The claim: after a successful fetch every place carries its distance from the
  caller and the published list is non-decreasing in distance. The code breaks the
  order when a place is at distance \<open>0\<close>: \<open>a.distance || Infinity\<close> takes \<open>0\<close> for a
  missing distance. For a caller at \<open>(19.076, 72.8777)\<close> and the places
  \<open>[School A at the caller's coordinates, College B 0.01 degrees north]\<close>, the published
  list is College B (about 1.1 km) before School A (0 km), which is not ascending.
\<close>

theorem fetchLocations_zero_distance_last:
  "fetchLocations two_places_proxy (Num user_lat) (Num user_lng)
     = [SetLoading True, FetchPlaces (Num user_lat) (Num user_lng),
        SetLocations [place_north\<lparr>distance := Some (Num (haversine_spec user_lat user_lng north_lat user_lng))\<rparr>,
                      place_here\<lparr>distance := Some (Num 0)\<rparr>],
        SetLoading False]
   \<and> 0 < haversine_spec user_lat user_lng north_lat user_lng
   \<and> \<not> ascending_by_distance
          [place_north\<lparr>distance := Some (Num (haversine_spec user_lat user_lng north_lat user_lng))\<rparr>,
           place_here\<lparr>distance := Some (Num 0)\<rparr>]"
proof -
  define d where "d = haversine_spec user_lat user_lng north_lat user_lng"
  have d_pos: "0 < d" unfolding d_def
    by (rule haversine_spec_same_lon_pos) (simp_all add: user_lat_def north_lat_def)
  have c: "\<bar>user_lat\<bar> \<le> 180" "\<bar>user_lng\<bar> \<le> 180" "\<bar>north_lat\<bar> \<le> 180"
    by (simp_all add: user_lat_def user_lng_def north_lat_def)
  have here: "calculateDistance (Num user_lat) (Num user_lng) (Num user_lat) (Num user_lng) = Num 0"
    using c by (simp add: calculateDistance_coord haversine_spec_same_point)
  have north: "calculateDistance (Num user_lat) (Num user_lng) (Num north_lat) (Num user_lng) = Num d"
    using c by (simp add: calculateDistance_coord d_def)
  have "fetchLocations two_places_proxy (Num user_lat) (Num user_lng)
     = [SetLoading True, FetchPlaces (Num user_lat) (Num user_lng),
        SetLocations [place_north\<lparr>distance := Some (Num d)\<rparr>, place_here\<lparr>distance := Some (Num 0)\<rparr>],
        SetLoading False]"
    using d_pos
    by (simp add: fetchLocations_def two_places_proxy_def with_distance_def place_here_def
          place_north_def here north array_sort_def compare_distance_def js_sub_def)
  moreover have "\<not> ascending_by_distance
          [place_north\<lparr>distance := Some (Num d)\<rparr>, place_here\<lparr>distance := Some (Num 0)\<rparr>]"
    using d_pos by (simp add: ascending_by_distance_def distance_or_last_def)
  ultimately show ?thesis using d_pos unfolding d_def by blast
qed

text \<open>
  C3. When \<open>lat\<close> or \<open>lng\<close> is \<open>NaN\<close>, a run of the function only sets the error to the
  invalid-coordinates message: it makes no request to the proxy.
\<close>

theorem fetchLocations_rejects_NaN:
  assumes "isNaN lat \<or> isNaN lng"
  shows "fetchLocations proxy lat lng = [SetError ''Invalid coordinates received. Unable to fetch locations.'']
       \<and> requests (fetchLocations proxy lat lng) = []
       \<and> error (run_effects (fetchLocations proxy lat lng) s)
            = ''Invalid coordinates received. Unable to fetch locations.''"
  using assms by (simp add: fetchLocations_def run_effects_def)

text \<open>C3, at \<open>(NaN, NaN)\<close>.\<close>

theorem fetchLocations_rejects_NaN_witness:
  "isNaN NaN \<and> fetchLocations failing_proxy NaN NaN = [SetError ''Invalid coordinates received. Unable to fetch locations.'']
       \<and> requests (fetchLocations failing_proxy NaN NaN) = []"
  using fetchLocations_rejects_NaN [of NaN NaN failing_proxy] by simp

text \<open>
  C4. When the request is made and the transport or the parsing of the response fails,
  one error is reported, \<open>Failed to fetch locations.\<close>, and the published list stays
  as it was.
\<close>

theorem fetchLocations_failure:
  assumes "\<not> isNaN lat" "\<not> isNaN lng"
      and "proxy lat lng = TransportError \<or> proxy lat lng = ParseError"
  shows "reported_errors (fetchLocations proxy lat lng) = [''Failed to fetch locations.'']
       \<and> locations (run_effects (fetchLocations proxy lat lng) s) = locations s
       \<and> error (run_effects (fetchLocations proxy lat lng) s) = ''Failed to fetch locations.''"
  using assms by (auto simp: fetchLocations_def run_effects_def)

text \<open>C4, for a failing transport and for an unparsable body, from a page showing one place.\<close>

theorem fetchLocations_failure_witness:
  "reported_errors (fetchLocations failing_proxy (Num user_lat) (Num user_lng))
     = [''Failed to fetch locations.'']
   \<and> locations (run_effects (fetchLocations failing_proxy (Num user_lat) (Num user_lng)) idle_page)
     = [place_here]
   \<and> reported_errors (fetchLocations unparsable_proxy (Num user_lat) (Num user_lng))
     = [''Failed to fetch locations.'']
   \<and> locations (run_effects (fetchLocations unparsable_proxy (Num user_lat) (Num user_lng)) idle_page)
     = [place_here]"
  using fetchLocations_failure [of "Num user_lat" "Num user_lng" failing_proxy idle_page]
    fetchLocations_failure [of "Num user_lat" "Num user_lng" unparsable_proxy idle_page]
  by (simp add: failing_proxy_def unparsable_proxy_def idle_page_def)

text \<open>
  C7 as stated fails: a run with a \<open>NaN\<close> coordinate is executed, not debounced away,
  and returns before \<open>setLoading(true)\<close>; the loading flag is not written at all.
\<close>

theorem fetchLocations_NaN_no_loading:
  "loading_writes (fetchLocations failing_proxy NaN (Num 0)) = []
   \<and> loading_writes (fetchLocations failing_proxy NaN (Num 0)) \<noteq> [True, False]"
  by (simp add: fetchLocations_def)

text \<open>
  C7, amended. For every run of the function with coordinates that are not \<open>NaN\<close>, the
  loading flag is set to true once, before the request, and to false once, as the last
  effect, whatever the outcome of the request; nothing in between writes it.
\<close>

theorem fetchLocations_loading_pair:
  assumes "\<not> isNaN lat" "\<not> isNaN lng"
  shows "\<exists>outcome. fetchLocations proxy lat lng
             = [SetLoading True, FetchPlaces lat lng, outcome, SetLoading False]
           \<and> loading_writes [outcome] = []
           \<and> loading_writes (fetchLocations proxy lat lng) = [True, False]"
  using assms
  by (auto simp: fetchLocations_def split: fetch_result.splits response_data.splits option.splits)

text \<open>C7 amended, for a successful and for a failed request.\<close>

theorem fetchLocations_loading_pair_witness:
  "loading_writes (fetchLocations two_places_proxy (Num user_lat) (Num user_lng)) = [True, False]
   \<and> loading_writes (fetchLocations failing_proxy (Num user_lat) (Num user_lng)) = [True, False]"
  using fetchLocations_loading_pair [of "Num user_lat" "Num user_lng" two_places_proxy]
    fetchLocations_loading_pair [of "Num user_lat" "Num user_lng" failing_proxy]
  by auto


section \<open>The location proxy: claims\<close>

text \<open>
  C2. A request whose \<open>lat\<close> or \<open>lng\<close> is missing (the handler's test \<open>!lat || !lng\<close>:
  absent, or empty) gets status 400 with body \<open>{error: "Missing coordinates"}\<close> and the
  places service is not contacted. With both present, when the call to the places
  service throws the response is status 500 with body
  \<open>{error: "Failed to fetch locations"}\<close>, and when it resolves with a JSON object
  whose member \<open>results\<close> is \<open>results\<close>, the response is status 200 with exactly
  that value as its body.
\<close>

theorem GET_responses:
  "(falsy (map_of searchParams ''lat'') \<or> falsy (map_of searchParams ''lng'')
      \<longrightarrow> GET k axios_get searchParams = (missing_coordinates, []))
   \<and> (\<not> falsy (map_of searchParams ''lat'') \<and> \<not> falsy (map_of searchParams ''lng'')
        \<and> axios_get (nearbysearch_request k (map_of searchParams ''lat'') (map_of searchParams ''lng'')) = Throws
      \<longrightarrow> GET k axios_get searchParams
            = (failed_to_fetch,
               [nearbysearch_request k (map_of searchParams ''lat'') (map_of searchParams ''lng'')]))
   \<and> (\<not> falsy (map_of searchParams ''lat'') \<and> \<not> falsy (map_of searchParams ''lng'')
        \<and> axios_get (nearbysearch_request k (map_of searchParams ''lat'') (map_of searchParams ''lng''))
             = Resolves (JObject members)
        \<and> map_of members ''results'' = Some results
      \<longrightarrow> GET k axios_get searchParams
            = (\<lparr>status = 200, body = results\<rparr>,
               [nearbysearch_request k (map_of searchParams ''lat'') (map_of searchParams ''lng'')]))"
  by (simp add: GET_def Let_def)

text \<open>C2, for a request without \<open>lat\<close>, one to a service that throws and one that is answered.\<close>

theorem GET_responses_witness:
  "GET (Some ''KEY'') answering_service [(''lng'', ''72.8777'')] = (missing_coordinates, [])
   \<and> status missing_coordinates = 400
   \<and> body missing_coordinates = JObject [(''error'', JString ''Missing coordinates'')]
   \<and> fst (GET (Some ''KEY'') throwing_service [(''lat'', ''19.076''), (''lng'', ''72.8777'')])
        = \<lparr>status = 500, body = JObject [(''error'', JString ''Failed to fetch locations'')]\<rparr>
   \<and> fst (GET (Some ''KEY'') answering_service [(''lat'', ''19.076''), (''lng'', ''72.8777'')])
        = \<lparr>status = 200, body = JArray [JString ''first'', JString ''second'']\<rparr>"
  using GET_responses [of "[(''lng'', ''72.8777'')]" "Some ''KEY''" answering_service]
    GET_responses [of "[(''lat'', ''19.076''), (''lng'', ''72.8777'')]" "Some ''KEY''" throwing_service]
    GET_responses [of "[(''lat'', ''19.076''), (''lng'', ''72.8777'')]" "Some ''KEY''" answering_service
       "[(''results'', JArray [JString ''first'', JString ''second'']), (''status'', JString ''OK'')]"
       "JArray [JString ''first'', JString ''second'']"]
  by (simp add: throwing_service_def answering_service_def missing_coordinates_def failed_to_fetch_def)

text \<open>
  C8. The claim: the type filter of every request to the places service is exactly the
  pipe-delimited list school, university, college, government_office. The constant in
  the code ends in a space, so the last category sent is \<open>government_office\<close> followed
  by a space. The other parameters are as claimed: \<open>location\<close> is \<open>lat,lng\<close>, \<open>radius\<close>
  is 5000 and \<open>key\<close> is the credential.
\<close>

theorem GET_type_filter_trailing_space:
  "snd (GET (Some ''KEY'') throwing_service [(''lat'', ''19.076''), (''lng'', ''72.8777'')])
     = [\<lparr>url = ''https://maps.googleapis.com/maps/api/place/nearbysearch/json'',
         params_location = ''19.076,72.8777'',
         params_radius = 5000,
         params_type = ''school|university|college|government_office '',
         params_key = Some ''KEY''\<rparr>]
   \<and> ''school|university|college|government_office ''
        \<noteq> pipe_delimited [''school'', ''university'', ''college'', ''government_office'']"
  by (simp add: GET_def Let_def nearbysearch_request_def throwing_service_def)

text \<open>
  C10. The response has status 400 exactly when \<open>lat\<close> or \<open>lng\<close> is absent or the
  empty string; two non-empty values, numeric or not, are sent to the places service as
  they are, as \<open>location = lat,lng\<close>.
\<close>

theorem GET_no_numeric_validation:
  "(status (fst (GET k axios_get searchParams)) = 400
      \<longleftrightarrow> map_of searchParams ''lat'' = None \<or> map_of searchParams ''lat'' = Some []
          \<or> map_of searchParams ''lng'' = None \<or> map_of searchParams ''lng'' = Some [])
   \<and> (map_of searchParams ''lat'' = Some lat \<and> lat \<noteq> []
        \<and> map_of searchParams ''lng'' = Some lng \<and> lng \<noteq> []
      \<longrightarrow> map params_location (snd (GET k axios_get searchParams)) = [lat @ '','' @ lng])"
proof -
  have f: "\<And>v. falsy v \<longleftrightarrow> v = None \<or> v = Some []"
    by (case_tac v) simp_all
  show ?thesis
    by (auto simp: GET_def Let_def f nearbysearch_request_def missing_coordinates_def
          failed_to_fetch_def split: upstream_result.splits option.splits)
qed

text \<open>C10, for \<open>lat=abc\<close>, and for an empty \<open>lat\<close>.\<close>

theorem GET_no_numeric_validation_witness:
  "status (fst (GET None answering_service [(''lat'', ''abc''), (''lng'', ''north'')])) \<noteq> 400
   \<and> map params_location (snd (GET None answering_service [(''lat'', ''abc''), (''lng'', ''north'')]))
        = [''abc,north'']
   \<and> status (fst (GET None answering_service [(''lat'', ''''), (''lng'', ''north'')])) = 400"
  using GET_no_numeric_validation [of None answering_service "[(''lat'', ''abc''), (''lng'', ''north'')]" "''abc''" "''north''"]
    GET_no_numeric_validation [of None answering_service "[(''lat'', ''''), (''lng'', ''north'')]"]
  by simp

end
